theory Spec2Isabelle
  imports Main "HOL-Library.Sublist"
begin

section \<open>Python values used by the agent\<close>

text \<open>
  A Python \<open>str\<close> is a sequence of Unicode code points, so it is modelled as a list of
  code points (natural numbers) and not as a list of bytes: \<open>startswith\<close>, \<open>strip\<close>
  and concatenation of the source work on code points. ASCII literals of the source are
  written \<open>ustr ''...''\<close>; the three symbols the source prints in front of its messages
  are given by their code points.
\<close>

type_synonym pystr = "nat list"

definition ustr :: "string \<Rightarrow> pystr" where
  "ustr s = map of_char s"

definition cross_mark :: nat where
  "cross_mark = 10060"

definition check_mark :: nat where
  "check_mark = 9989"

definition alarm_clock :: nat where
  "alarm_clock = 9200"

definition newline :: pystr where
  "newline = [10]"

text \<open>
  \<open>str.isspace\<close> of CPython for one code point, which is what \<open>str.strip()\<close> without
  argument removes: U+0009..U+000D, U+001C..U+0020, U+0085, U+00A0, U+1680,
  U+2000..U+200A, U+2028, U+2029, U+202F, U+205F, U+3000.
\<close>

definition is_space :: "nat \<Rightarrow> bool" where
  "is_space c \<longleftrightarrow>
     (9 \<le> c \<and> c \<le> 13) \<or> (28 \<le> c \<and> c \<le> 32) \<or> c = 133 \<or> c = 160 \<or> c = 5760 \<or>
     (8192 \<le> c \<and> c \<le> 8202) \<or> c = 8232 \<or> c = 8233 \<or> c = 8239 \<or> c = 8287 \<or> c = 12288"

definition py_lstrip :: "pystr \<Rightarrow> pystr" where
  "py_lstrip s = dropWhile is_space s"

definition py_rstrip :: "pystr \<Rightarrow> pystr" where
  "py_rstrip s = rev (dropWhile is_space (rev s))"

definition py_strip :: "pystr \<Rightarrow> pystr" where
  "py_strip s = py_rstrip (py_lstrip s)"

definition startswith :: "pystr \<Rightarrow> pystr \<Rightarrow> bool" where
  "startswith s p \<longleftrightarrow> take (length p) s = p"

text \<open>\<open>sep.join(xs)\<close>.\<close>

fun join :: "pystr \<Rightarrow> pystr list \<Rightarrow> pystr" where
  "join sep [] = []"
| "join sep [x] = x"
| "join sep (x # y # ys) = x @ sep @ join sep (y # ys)"

text \<open>Decimal digits of a natural number and \<open>str(i)\<close> of a Python \<open>int\<close>.\<close>

fun digits :: "nat \<Rightarrow> pystr" where
  "digits n = (if n < 10 then [48 + n] else digits (n div 10) @ [48 + n mod 10])"

declare digits.simps [simp del]

definition str_int :: "int \<Rightarrow> pystr" where
  "str_int i = (if i < 0 then 45 # digits (nat (- i)) else digits (nat i))"

text \<open>
  The values \<open>json.loads\<close> and \<open>response.json()\<close> produce, and the dictionaries and
  lists the agent builds for its history and its request. A dictionary is an association
  list read with \<open>map_of\<close>. A float is kept as an opaque pair: no operation of the agent
  looks inside a number.
\<close>

datatype json =
    JNull
  | JBool bool
  | JInt int
  | JFloat int int
  | JStr pystr
  | JArr "json list"
  | JObj "(pystr \<times> json) list"

text \<open>
  Exceptions. \<open>RequestException m\<close> is any instance of
  \<open>requests.exceptions.RequestException\<close> (its subclasses \<open>ConnectionError\<close>,
  \<open>Timeout\<close>, \<open>HTTPError\<close>, ... included) with \<open>str(e) = m\<close>; \<open>OtherException m\<close>
  is any other instance of \<open>Exception\<close>; \<open>KeyboardInterrupt\<close> is the one exception
  here that \<open>except Exception\<close> does not catch.
\<close>

datatype pyop = Subscript | Iterate | Concat | Contains

datatype exn =
    KeyError pystr
  | TypeError pyop json
  | RequestException pystr
  | OtherException pystr
  | KeyboardInterrupt

definition is_Exception :: "exn \<Rightarrow> bool" where
  "is_Exception e \<longleftrightarrow> e \<noteq> KeyboardInterrupt"

text \<open>\<open>obj[key]\<close> with a string key: only a dictionary has string keys.\<close>

fun subscript :: "json \<Rightarrow> pystr \<Rightarrow> exn + json" where
  "subscript (JObj kvs) k = (case map_of kvs k of None \<Rightarrow> Inl (KeyError k) | Some v \<Rightarrow> Inr v)"
| "subscript j k = Inl (TypeError Subscript j)"

text \<open>
  \<open>key in obj\<close> for a string key: a key of a dictionary, an element of a list, a
  substring of a string; anything else is not a container.
\<close>

fun py_in :: "pystr \<Rightarrow> json \<Rightarrow> exn + bool" where
  "py_in k (JObj kvs) = Inr (map_of kvs k \<noteq> None)"
| "py_in k (JArr xs) = Inr (JStr k \<in> set xs)"
| "py_in k (JStr s) = Inr (sublist k s)"
| "py_in k j = Inl (TypeError Contains j)"

text \<open>
  \<open>for block in content\<close>: the elements of a list, the one-character strings of a string,
  the keys of a dictionary; anything else is not iterable.
\<close>

fun py_iter :: "json \<Rightarrow> exn + json list" where
  "py_iter (JArr xs) = Inr xs"
| "py_iter (JStr s) = Inr (map (\<lambda>c. JStr [c]) s)"
| "py_iter (JObj kvs) = Inr (map JStr (remdups (map fst kvs)))"
| "py_iter j = Inl (TypeError Iterate j)"

text \<open>\<open>x + "\n"\<close>: defined for a string only.\<close>

fun concat_newline :: "json \<Rightarrow> exn + pystr" where
  "concat_newline (JStr s) = Inr (s @ newline)"
| "concat_newline j = Inl (TypeError Concat j)"

section \<open>The environment\<close>

text \<open>
  What the agent calls and does not define: the HTTP client, the subprocess module and
  the interpreter's own formatting. The world state \<open>'w\<close> is threaded through the two
  calls that act on the world, so that the same command or request may have a different
  outcome each time.

  \<^item> \<open>requests_post w url headers payload\<close> is \<open>requests.post(url, headers=..., json=...)\<close>:
    an exception or a response object.
  \<^item> \<open>subprocess_run w command timeout\<close> is
    \<open>subprocess.run(command, shell=True, capture_output=True, text=True, timeout=...)\<close>.
  \<^item> \<open>py_repr v\<close> is \<open>str(v)\<close> for a value that is not a string.
  \<^item> \<open>exc_text e\<close> is \<open>str(e)\<close> for an exception the interpreter raises itself.
  \<^item> \<open>str_lower s\<close> is \<open>s.lower()\<close>.
\<close>

record http_response =
  status_code :: nat
  http_error_msg :: pystr
  json_body :: "exn + json"

datatype run_result =
    CompletedProcess int pystr pystr
  | TimeoutExpired
  | RunRaised exn

record 'w env =
  requests_post :: "'w \<Rightarrow> pystr \<Rightarrow> (pystr \<times> pystr) list \<Rightarrow> json \<Rightarrow> (exn + http_response) \<times> 'w"
  subprocess_run :: "'w \<Rightarrow> json \<Rightarrow> nat \<Rightarrow> run_result \<times> 'w"
  py_repr :: "json \<Rightarrow> pystr"
  exc_text :: "exn \<Rightarrow> pystr"
  str_lower :: "pystr \<Rightarrow> pystr"

text \<open>
  \<open>Response.raise_for_status()\<close> of the HTTP client: an \<open>HTTPError\<close>, which is a
  \<open>RequestException\<close>, for a status from 400 to 599.
\<close>

definition raise_for_status :: "http_response \<Rightarrow> exn + unit" where
  "raise_for_status r =
     (if 400 \<le> status_code r \<and> status_code r < 600
      then Inl (RequestException (http_error_msg r)) else Inr ())"

text \<open>\<open>str(e)\<close>, and \<open>{v}\<close> inside an f-string.\<close>

definition str_exn :: "'w env \<Rightarrow> exn \<Rightarrow> pystr" where
  "str_exn env e =
     (case e of RequestException m \<Rightarrow> m | OtherException m \<Rightarrow> m | _ \<Rightarrow> exc_text env e)"

definition py_format :: "'w env \<Rightarrow> json \<Rightarrow> pystr" where
  "py_format env v = (case v of JStr s \<Rightarrow> s | _ \<Rightarrow> py_repr env v)"

section \<open>The agent\<close>

text \<open>
  The object \<open>self\<close> is a record that each method takes and returns; a method that can
  raise returns \<open>Inl\<close> of the exception, together with the state and the world as they
  are when it is raised. The calls of \<open>print\<close> write to the console only and are left
  out.
\<close>

record agent =
  api_key :: pystr
  api_url :: pystr
  headers :: "(pystr \<times> pystr) list"
  conversation_history :: "json list"

definition init :: "pystr \<Rightarrow> agent" where
  "init key =
     \<lparr> api_key = key,
       api_url = ustr ''https://api.anthropic.com/v1/messages'',
       headers = [(ustr ''Content-Type'', ustr ''application/json''),
                  (ustr ''x-api-key'', key),
                  (ustr ''anthropic-version'', ustr ''2023-06-01'')],
       conversation_history = [] \<rparr>"

definition user_turn :: "pystr \<Rightarrow> json" where
  "user_turn message = JObj [(ustr ''role'', JStr (ustr ''user'')), (ustr ''content'', JStr message)]"

definition assistant_turn :: "pystr \<Rightarrow> json" where
  "assistant_turn result =
     JObj [(ustr ''role'', JStr (ustr ''assistant'')), (ustr ''content'', JStr result)]"

definition system_prompt :: pystr where
  \<open>system_prompt = join newline (map ustr
    [''You are a Proxmox VM management assistant. You have access to the bash tool and should use it to help manage Proxmox VMs.'',
     '''',
     ''Key Proxmox commands you should know:'',
     ''- pvesh get /nodes - list nodes'',
     ''- pvesh get /nodes/{node}/qemu - list VMs on a node'',
     ''- pvesh get /nodes/{node}/qemu/{vmid}/status/current - get VM status'',
     ''- pvesh create /nodes/{node}/qemu/{vmid}/status/start - start VM'',
     ''- pvesh create /nodes/{node}/qemu/{vmid}/status/stop - stop VM'',
     ''- pvesh create /nodes/{node}/qemu/{vmid}/status/shutdown - shutdown VM'',
     ''- pvesh create /nodes/{node}/qemu/{vmid}/status/reboot - reboot VM'',
     ''- qm list - list all VMs'',
     ''- qm status {vmid} - get VM status'',
     ''- qm start {vmid} - start VM'',
     ''- qm stop {vmid} - stop VM'',
     ''- qm shutdown {vmid} - shutdown VM'',
     ''- qm reboot {vmid} - reboot VM'',
     ''- pct list - list containers'',
     ''- pct status {vmid} - get container status'',
     ''- pct start {vmid} - start container'',
     ''- pct stop {vmid} - stop container'',
     '''',
     ''Guest Agent commands (for VMs/containers with Proxmox guest agent installed):'',
     ''- qm guest exec {vmid} [username] -- {command} - execute command on VM'',
     ''- qm guest passwd {vmid} {username} - set user password on VM'',
     ''- pct exec {vmid} -- {command} - execute command on container'',
     ''- pvesh create /nodes/{node}/qemu/{vmid}/agent/exec -- command="{command}" - execute via API'',
     ''- pvesh get /nodes/{node}/qemu/{vmid}/agent/info - check if agent is running'',
     ''- pvesh create /nodes/{node}/qemu/{vmid}/agent/shutdown - shutdown via agent'',
     ''- pvesh create /nodes/{node}/qemu/{vmid}/agent/suspend-disk - suspend to disk'',
     ''- pvesh create /nodes/{node}/qemu/{vmid}/agent/suspend-ram - suspend to RAM'',
     '''',
     ''Always use the bash tool to execute these commands and provide helpful, concise responses about VM management tasks.''])\<close>

definition tools :: json where
  "tools = JArr
     [JObj [(ustr ''name'', JStr (ustr ''bash'')),
            (ustr ''description'', JStr (ustr ''Execute bash commands on the Proxmox system'')),
            (ustr ''input_schema'', JObj
               [(ustr ''type'', JStr (ustr ''object'')),
                (ustr ''properties'', JObj
                   [(ustr ''command'', JObj
                       [(ustr ''type'', JStr (ustr ''string'')),
                        (ustr ''description'', JStr (ustr ''The bash command to execute''))])]),
                (ustr ''required'', JArr [JStr (ustr ''command'')])])]]"

text \<open>The dictionary \<open>payload\<close> that \<open>send_message_to_claude\<close> builds.\<close>

definition payload :: "agent \<Rightarrow> pystr \<Rightarrow> json" where
  "payload self message =
     JObj [(ustr ''model'', JStr (ustr ''claude-sonnet-4-20250514'')),
           (ustr ''max_tokens'', JInt 2000),
           (ustr ''system'', JStr system_prompt),
           (ustr ''messages'', JArr (conversation_history self @ [user_turn message])),
           (ustr ''tools'', tools)]"

text \<open>
  \<open>send_message_to_claude\<close>: the three calls inside the \<open>try\<close>, each of which may raise;
  a \<open>RequestException\<close> becomes the dictionary with the key \<open>error\<close>, any other
  exception leaves the function.
\<close>

definition request_failed :: "exn \<Rightarrow> exn + json" where
  "request_failed e =
     (case e of
        RequestException m \<Rightarrow> Inr (JObj [(ustr ''error'', JStr (ustr ''API request failed: '' @ m))])
      | _ \<Rightarrow> Inl e)"

definition send_message_to_claude :: "'w env \<Rightarrow> agent \<Rightarrow> pystr \<Rightarrow> 'w \<Rightarrow> (exn + json) \<times> 'w" where
  "send_message_to_claude env self message w =
     (case requests_post env w (api_url self) (headers self) (payload self message) of
        (Inl e, w') \<Rightarrow> (request_failed e, w')
      | (Inr response, w') \<Rightarrow>
          (case raise_for_status response of
             Inl e \<Rightarrow> (request_failed e, w')
           | Inr _ \<Rightarrow>
               (case json_body response of
                  Inl e \<Rightarrow> (request_failed e, w')
                | Inr body \<Rightarrow> (Inr body, w'))))"

text \<open>The strings \<open>process_claude_response\<close> adds to \<open>result_text\<close> for a command.\<close>

definition command_successful :: "pystr \<Rightarrow> pystr" where
  "command_successful out = check_mark # ustr '' Command successful:'' @ newline @ out @ newline"

definition command_failed :: "int \<Rightarrow> pystr \<Rightarrow> pystr" where
  "command_failed returncode err =
     cross_mark # ustr '' Command failed (exit '' @ str_int returncode @ ustr ''):'' @ newline
       @ err @ newline"

definition command_timed_out :: pystr where
  "command_timed_out = alarm_clock # ustr '' Command timed out'' @ newline"

definition error_executing :: "pystr \<Rightarrow> pystr" where
  "error_executing msg = cross_mark # ustr '' Error executing command: '' @ msg @ newline"

definition tool_result :: "json \<Rightarrow> int \<Rightarrow> pystr \<Rightarrow> pystr \<Rightarrow> json" where
  "tool_result tool_id returncode out err =
     JObj [(ustr ''type'', JStr (ustr ''tool_result'')),
           (ustr ''tool_use_id'', tool_id),
           (ustr ''content'', JStr (ustr ''Exit code: '' @ str_int returncode @ newline
              @ ustr ''Stdout: '' @ out @ newline @ ustr ''Stderr: '' @ err))]"

definition tool_result_turn :: "json \<Rightarrow> int \<Rightarrow> pystr \<Rightarrow> pystr \<Rightarrow> json" where
  "tool_result_turn tool_id returncode out err =
     JObj [(ustr ''role'', JStr (ustr ''user'')),
           (ustr ''content'', JArr [tool_result tool_id returncode out err])]"

text \<open>
  The inner \<open>try\<close> of \<open>process_claude_response\<close>: run the command with timeout 30; when
  the run returns, build the tool result (reading \<open>block["id"]\<close>, still inside the
  \<open>try\<close>), append it to the history and report the exit code; \<open>TimeoutExpired\<close> and any
  other \<open>Exception\<close> only add a line to \<open>result_text\<close>.
\<close>

definition execute_bash ::
  "'w env \<Rightarrow> json \<Rightarrow> json \<Rightarrow> pystr \<times> agent \<times> 'w \<Rightarrow> (exn + pystr) \<times> agent \<times> 'w" where
  "execute_bash env block command s =
     (case s of (result_text, self, w) \<Rightarrow>
        (case subprocess_run env w command 30 of
           (CompletedProcess returncode out err, w') \<Rightarrow>
             (case subscript block (ustr ''id'') of
                Inl e \<Rightarrow> (Inr (result_text @ error_executing (str_exn env e)), self, w')
              | Inr tool_id \<Rightarrow>
                  (Inr (result_text @
                          (if returncode = 0 then command_successful out
                           else command_failed returncode err)),
                   self\<lparr>conversation_history :=
                          conversation_history self @ [tool_result_turn tool_id returncode out err]\<rparr>,
                   w'))
         | (TimeoutExpired, w') \<Rightarrow> (Inr (result_text @ command_timed_out), self, w')
         | (RunRaised e, w') \<Rightarrow>
             (if is_Exception e
              then (Inr (result_text @ error_executing (str_exn env e)), self, w')
              else (Inl e, self, w'))))"

text \<open>
  One iteration of \<open>for block in content\<close>. \<open>Inl e\<close> is an exception on its way to the
  outer \<open>except\<close>; the history and the world keep what was done before it.
\<close>

definition process_block ::
  "'w env \<Rightarrow> json \<Rightarrow> pystr \<times> agent \<times> 'w \<Rightarrow> (exn + pystr) \<times> agent \<times> 'w" where
  "process_block env block s =
     (case s of (result_text, self, w) \<Rightarrow>
        (case subscript block (ustr ''type'') of
           Inl e \<Rightarrow> (Inl e, self, w)
         | Inr ty \<Rightarrow>
             if ty = JStr (ustr ''text'') then
               (case subscript block (ustr ''text'') of
                  Inl e \<Rightarrow> (Inl e, self, w)
                | Inr t \<Rightarrow>
                    (case concat_newline t of
                       Inl e \<Rightarrow> (Inl e, self, w)
                     | Inr line \<Rightarrow> (Inr (result_text @ line), self, w)))
             else if ty = JStr (ustr ''tool_use'') then
               (case subscript block (ustr ''name'') of
                  Inl e \<Rightarrow> (Inl e, self, w)
                | Inr name \<Rightarrow>
                    if name = JStr (ustr ''bash'') then
                      (case subscript block (ustr ''input'') of
                         Inl e \<Rightarrow> (Inl e, self, w)
                       | Inr inp \<Rightarrow>
                           (case subscript inp (ustr ''command'') of
                              Inl e \<Rightarrow> (Inl e, self, w)
                            | Inr command \<Rightarrow> execute_bash env block command s))
                    else (Inr result_text, self, w))
             else (Inr result_text, self, w)))"

fun process_blocks ::
  "'w env \<Rightarrow> json list \<Rightarrow> pystr \<times> agent \<times> 'w \<Rightarrow> (exn + pystr) \<times> agent \<times> 'w" where
  "process_blocks env [] s = (case s of (result_text, self, w) \<Rightarrow> (Inr result_text, self, w))"
| "process_blocks env (block # blocks) s =
     (case process_block env block s of
        (Inl e, self', w') \<Rightarrow> (Inl e, self', w')
      | (Inr result_text', self', w') \<Rightarrow> process_blocks env blocks (result_text', self', w'))"

text \<open>The body of the outer \<open>try\<close>.\<close>

definition process_content ::
  "'w env \<Rightarrow> json \<Rightarrow> agent \<Rightarrow> 'w \<Rightarrow> (exn + pystr) \<times> agent \<times> 'w" where
  "process_content env response self w =
     (case subscript response (ustr ''content'') of
        Inl e \<Rightarrow> (Inl e, self, w)
      | Inr content \<Rightarrow>
          (case py_iter content of
             Inl e \<Rightarrow> (Inl e, self, w)
           | Inr blocks \<Rightarrow>
               (case process_blocks env blocks ([], self, w) of
                  (Inl e, self', w') \<Rightarrow> (Inl e, self', w')
                | (Inr result_text, self', w') \<Rightarrow> (Inr (py_strip result_text), self', w'))))"

text \<open>
  \<open>process_claude_response\<close>. The test \<open>"error" in response\<close> and the first \<open>return\<close>
  are outside the \<open>try\<close>: an exception there leaves the function.
\<close>

definition process_claude_response ::
  "'w env \<Rightarrow> json \<Rightarrow> agent \<Rightarrow> 'w \<Rightarrow> (exn + pystr) \<times> agent \<times> 'w" where
  "process_claude_response env response self w =
     (case py_in (ustr ''error'') response of
        Inl e \<Rightarrow> (Inl e, self, w)
      | Inr True \<Rightarrow>
          (case subscript response (ustr ''error'') of
             Inl e \<Rightarrow> (Inl e, self, w)
           | Inr v \<Rightarrow> (Inr (cross_mark # ustr '' Error: '' @ py_format env v), self, w))
      | Inr False \<Rightarrow>
          (case process_content env response self w of
             (Inl e, self', w') \<Rightarrow>
               (if is_Exception e
                then (Inr (cross_mark # ustr '' Error processing response: '' @ str_exn env e),
                      self', w')
                else (Inl e, self', w'))
           | (Inr result, self', w') \<Rightarrow> (Inr result, self', w')))"

text \<open>\<open>chat\<close>.\<close>

definition chat :: "'w env \<Rightarrow> pystr \<Rightarrow> agent \<Rightarrow> 'w \<Rightarrow> (exn + pystr) \<times> agent \<times> 'w" where
  "chat env message self w =
     (let self1 = self\<lparr>conversation_history := conversation_history self @ [user_turn message]\<rparr>
      in case send_message_to_claude env self1 message w of
           (Inl e, w1) \<Rightarrow> (Inl e, self1, w1)
         | (Inr response, w1) \<Rightarrow>
             (case process_claude_response env response self1 w1 of
                (Inl e, self2, w2) \<Rightarrow> (Inl e, self2, w2)
              | (Inr result, self2, w2) \<Rightarrow>
                  (Inr result,
                   (if \<not> startswith result [cross_mark]
                    then self2\<lparr>conversation_history :=
                                 conversation_history self2 @ [assistant_turn result]\<rparr>
                    else self2),
                   w2)))"

text \<open>
  One iteration of the loop of \<open>interactive_mode\<close>, for what \<open>input\<close> gives: a line or
  an exception. \<open>KeyboardInterrupt\<close> ends the loop, any other exception is printed and
  the loop goes on. Console output is not part of the model.
\<close>

datatype input_event = Line pystr | InputRaised exn

datatype loop_ctl = Break | Continue

definition interactive_step ::
  "'w env \<Rightarrow> input_event \<Rightarrow> agent \<Rightarrow> 'w \<Rightarrow> loop_ctl \<times> agent \<times> 'w" where
  "interactive_step env ev self w =
     (case ev of
        InputRaised e \<Rightarrow> (if e = KeyboardInterrupt then Break else Continue, self, w)
      | Line raw \<Rightarrow>
          (let user_input = py_strip raw in
           if str_lower env user_input = ustr ''exit'' then (Break, self, w)
           else if str_lower env user_input = ustr ''clear''
             then (Continue, self\<lparr>conversation_history := []\<rparr>, w)
           else if user_input = [] then (Continue, self, w)
           else
             (case chat env user_input self w of
                (Inl e, self', w') \<Rightarrow> (if e = KeyboardInterrupt then Break else Continue, self', w')
              | (Inr response, self', w') \<Rightarrow> (Continue, self', w'))))"

text \<open>
  The loop over the inputs of a session, as far as they are given: it stops at the first
  \<open>Break\<close>; \<open>Continue\<close> as result says that the loop is still waiting for input.
\<close>

fun interactive_mode ::
  "'w env \<Rightarrow> input_event list \<Rightarrow> agent \<Rightarrow> 'w \<Rightarrow> loop_ctl \<times> agent \<times> 'w" where
  "interactive_mode env [] self w = (Continue, self, w)"
| "interactive_mode env (ev # evs) self w =
     (case interactive_step env ev self w of
        (Break, self', w') \<Rightarrow> (Break, self', w')
      | (Continue, self', w') \<Rightarrow> interactive_mode env evs self' w')"

section \<open>Configuration\<close>

text \<open>
  The file system as far as the configuration needs it: the text files by path, the
  home directory that \<open>os.path.expanduser\<close> puts in place of \<open>~\<close>, and the environment
  variable \<open>ANTHROPIC_API_KEY\<close>. Directories are not modelled.
\<close>

record fs =
  files :: "pystr \<Rightarrow> pystr option"
  home :: pystr
  anthropic_api_key :: "pystr option"

text \<open>
  \<open>posixpath.expanduser\<close> for a path that starts with \<open>~/\<close>, and \<open>posixpath.join\<close> of
  two components.
\<close>

definition expanduser :: "fs \<Rightarrow> pystr \<Rightarrow> pystr" where
  "expanduser fs path =
     (if startswith path (ustr ''~/'')
      then rev (dropWhile (\<lambda>c. c = 47) (rev (home fs))) @ drop 1 path
      else path)"

definition path_join :: "pystr \<Rightarrow> pystr \<Rightarrow> pystr" where
  "path_join a b =
     (if startswith b (ustr ''/'') then b
      else if a = [] \<or> last a = 47 then a @ b
      else a @ ustr ''/'' @ b)"

text \<open>
  \<open>json.dump(obj, f, indent=n)\<close> as the text it writes and \<open>json.load\<close> as a function of
  the text it reads: both belong to the library and are parameters.
\<close>

record codec =
  json_dump :: "json \<Rightarrow> nat \<Rightarrow> pystr"
  json_load :: "pystr \<Rightarrow> exn + json"

text \<open>
  What the operating system does with the calls of \<open>create_config\<close>:
  \<open>os.makedirs\<close> may raise, and the \<open>with open(..., 'w')\<close> block either writes the whole
  text, or fails to open the file, or fails after some characters were written.
\<close>

datatype write_outcome = Written | OpenFailed exn | WriteFailed exn nat

text \<open>
  \<open>create_config\<close>. \<open>input\<close> and \<open>os.makedirs\<close> are outside the \<open>try\<close>; Python's
  \<open>None\<close> is \<open>JNull\<close>.
\<close>

definition create_config ::
  "codec \<Rightarrow> exn + pystr \<Rightarrow> exn option \<Rightarrow> write_outcome \<Rightarrow> fs \<Rightarrow> (exn + json) \<times> fs" where
  "create_config cd input_result makedirs_result wr fs =
     (let config_dir = expanduser fs (ustr ''~/.config/claude-proxmox'');
          config_file = path_join config_dir (ustr ''config.json'')
      in case input_result of
           Inl e \<Rightarrow> (Inl e, fs)
         | Inr line \<Rightarrow>
             (let api_key = py_strip line in
              case makedirs_result of
                Some e \<Rightarrow> (Inl e, fs)
              | None \<Rightarrow>
                  (let config = JObj [(ustr ''api_key'', JStr api_key)];
                       text = json_dump cd config 2
                   in case wr of
                        Written \<Rightarrow> (Inr config, fs\<lparr>files := (files fs)(config_file \<mapsto> text)\<rparr>)
                      | OpenFailed e \<Rightarrow> (if is_Exception e then Inr JNull else Inl e, fs)
                      | WriteFailed e n \<Rightarrow>
                          (if is_Exception e then Inr JNull else Inl e,
                           fs\<lparr>files := (files fs)(config_file \<mapsto> take n text)\<rparr>))))"

text \<open>
  \<open>load_config\<close>: the file when it exists and can be read and parsed, else the
  environment variable when it is set and not empty, else \<open>None\<close>.
\<close>

definition load_config :: "codec \<Rightarrow> exn option \<Rightarrow> fs \<Rightarrow> exn + json" where
  "load_config cd read_result fs =
     (let config_file = expanduser fs (ustr ''~/.config/claude-proxmox/config.json'');
          fallback =
            (case anthropic_api_key fs of
               None \<Rightarrow> Inr JNull
             | Some key \<Rightarrow> if key \<noteq> [] then Inr (JObj [(ustr ''api_key'', JStr key)]) else Inr JNull)
      in case files fs config_file of
           None \<Rightarrow> fallback
         | Some text \<Rightarrow>
             (case read_result of
                Some e \<Rightarrow> if is_Exception e then fallback else Inl e
              | None \<Rightarrow>
                  (case json_load cd text of
                     Inl e \<Rightarrow> if is_Exception e then fallback else Inl e
                   | Inr config \<Rightarrow> Inr config)))"

section \<open>Concrete environments for the examples\<close>

text \<open>
  An environment that answers every request with \<open>http\<close> and every command with \<open>rr\<close>,
  and whose world state is the log of the payloads posted and of the commands run.
\<close>

definition ascii_lower :: "pystr \<Rightarrow> pystr" where
  "ascii_lower s = map (\<lambda>c. if 65 \<le> c \<and> c \<le> 90 then c + 32 else c) s"

definition log_env :: "(exn + http_response) \<Rightarrow> run_result \<Rightarrow> (json list \<times> json list) env" where
  "log_env http rr =
     \<lparr> requests_post = (\<lambda>w url hs p. (http, (fst w @ [p], snd w))),
       subprocess_run = (\<lambda>w command timeout. (rr, (fst w, snd w @ [command]))),
       py_repr = (\<lambda>v. []),
       exc_text = (\<lambda>e. []),
       str_lower = ascii_lower \<rparr>"

definition http_ok :: "json \<Rightarrow> exn + http_response" where
  "http_ok body = Inr \<lparr> status_code = 200, http_error_msg = [], json_body = Inr body \<rparr>"

definition text_block :: "pystr \<Rightarrow> json" where
  "text_block t = JObj [(ustr ''type'', JStr (ustr ''text'')), (ustr ''text'', JStr t)]"

definition bash_block :: "pystr \<Rightarrow> pystr \<Rightarrow> json" where
  "bash_block tool_id command =
     JObj [(ustr ''type'', JStr (ustr ''tool_use'')),
           (ustr ''id'', JStr tool_id),
           (ustr ''name'', JStr (ustr ''bash'')),
           (ustr ''input'', JObj [(ustr ''command'', JStr command)])]"

definition api_response :: "json list \<Rightarrow> json" where
  "api_response blocks =
     JObj [(ustr ''role'', JStr (ustr ''assistant'')), (ustr ''content'', JArr blocks)]"

text \<open>
  A codec for the examples: it writes a dictionary of one string, and reads back the
  documents of \<open>known\<close>.
\<close>

definition dump_flat :: "json \<Rightarrow> nat \<Rightarrow> pystr" where
  "dump_flat j indent =
     (case j of
        JObj [(k, JStr v)] \<Rightarrow>
          ustr ''{'' @ newline @ replicate indent 32 @ [34] @ k @ [34] @ ustr '': '' @ [34] @ v
            @ [34] @ newline @ ustr ''}''
      | _ \<Rightarrow> [])"

definition table_codec :: "json list \<Rightarrow> codec" where
  "table_codec known =
     \<lparr> json_dump = dump_flat,
       json_load = (\<lambda>text. case find (\<lambda>j. dump_flat j 2 = text) known of
                     None \<Rightarrow> Inl (OtherException (ustr ''Expecting value''))
                   | Some j \<Rightarrow> Inr j) \<rparr>"

definition key_config :: "pystr \<Rightarrow> json" where
  "key_config key = JObj [(ustr ''api_key'', JStr key)]"

definition empty_fs :: fs where
  "empty_fs = \<lparr> files = (\<lambda>p. None), home = ustr ''/root'', anthropic_api_key = None \<rparr>"

section \<open>Predicates used in the statements\<close>

text \<open>A block that the loop reads as a text block with the text \<open>t\<close>.\<close>

definition is_text_block :: "json \<Rightarrow> pystr \<Rightarrow> bool" where
  "is_text_block block t \<longleftrightarrow>
     subscript block (ustr ''type'') = Inr (JStr (ustr ''text'')) \<and>
     subscript block (ustr ''text'') = Inr (JStr t)"

text \<open>
  A block that the loop reads as a call of the tool \<open>bash\<close> with the id \<open>tool_id\<close> and
  the command \<open>command\<close>.
\<close>

definition is_bash_block :: "json \<Rightarrow> json \<Rightarrow> json \<Rightarrow> bool" where
  "is_bash_block block tool_id command \<longleftrightarrow>
     subscript block (ustr ''type'') = Inr (JStr (ustr ''tool_use'')) \<and>
     subscript block (ustr ''name'') = Inr (JStr (ustr ''bash'')) \<and>
     (case subscript block (ustr ''input'') of
        Inl e \<Rightarrow> False
      | Inr inp \<Rightarrow> subscript inp (ustr ''command'') = Inr command) \<and>
     subscript block (ustr ''id'') = Inr tool_id"

text \<open>
  A block that the loop reads as a call of the tool \<open>bash\<close> with the command \<open>command\<close>,
  whether or not it has an \<open>id\<close>.
\<close>

definition calls_bash :: "json \<Rightarrow> json \<Rightarrow> bool" where
  "calls_bash block command \<longleftrightarrow>
     subscript block (ustr ''type'') = Inr (JStr (ustr ''tool_use'')) \<and>
     subscript block (ustr ''name'') = Inr (JStr (ustr ''bash'')) \<and>
     (case subscript block (ustr ''input'') of
        Inl e \<Rightarrow> False
      | Inr inp \<Rightarrow> subscript inp (ustr ''command'') = Inr command)"

definition bash_block_without_id :: "pystr \<Rightarrow> json" where
  "bash_block_without_id command =
     JObj [(ustr ''type'', JStr (ustr ''tool_use'')),
           (ustr ''name'', JStr (ustr ''bash'')),
           (ustr ''input'', JObj [(ustr ''command'', JStr command)])]"

text \<open>An input line that the interactive loop reads as the command \<open>clear\<close>.\<close>

definition is_clear :: "'w env \<Rightarrow> input_event \<Rightarrow> bool" where
  "is_clear env ev =
     (case ev of
        Line raw \<Rightarrow> str_lower env (py_strip raw) = ustr ''clear''
      | InputRaised e \<Rightarrow> False)"


section \<open>Strings\<close>

lemma ustr_eq_iff [simp]: "ustr a = ustr b \<longleftrightarrow> a = b"
  by (simp add: ustr_def inj_map_eq_map inj_on_def)

lemma is_space_newline: "is_space 10"
  by (simp add: is_space_def)

lemma not_space_cross_mark: "\<not> is_space cross_mark"
  by (simp add: is_space_def cross_mark_def)

lemma py_rstrip_append_space: "is_space c \<Longrightarrow> py_rstrip (s @ [c]) = py_rstrip s"
  by (simp add: py_rstrip_def)

lemma py_lstrip_append_space:
  "is_space c \<Longrightarrow> py_lstrip (s @ [c]) = (if \<forall>x\<in>set s. is_space x then [] else py_lstrip s @ [c])"
  by (auto simp: py_lstrip_def dropWhile_append dropWhile_eq_Nil_conv)

lemma py_rstrip_Nil: "py_rstrip [] = []"
  by (simp add: py_rstrip_def)

lemma py_lstrip_all_space: "\<forall>x\<in>set s. is_space x \<Longrightarrow> py_lstrip s = []"
  by (simp add: py_lstrip_def)

lemma py_strip_append_space: "is_space c \<Longrightarrow> py_strip (s @ [c]) = py_strip s"
  by (simp add: py_strip_def py_lstrip_append_space py_rstrip_append_space py_rstrip_Nil
      py_lstrip_all_space)

lemma py_strip_append_newline: "py_strip (s @ newline) = py_strip s"
  by (simp add: newline_def py_strip_append_space is_space_newline)

lemma py_rstrip_Cons: "\<not> is_space c \<Longrightarrow> py_rstrip (c # s) = c # py_rstrip s"
  by (simp add: py_rstrip_def dropWhile_append)

lemma py_strip_Cons: "\<not> is_space c \<Longrightarrow> py_strip (c # s) = c # py_rstrip s"
  by (simp add: py_strip_def py_lstrip_def py_rstrip_Cons)

lemma startswith_Cons: "startswith (c # s) [c]"
  by (simp add: startswith_def)

lemma concat_lines_join:
  "concat (map (\<lambda>t. t @ newline) ts) = (if ts = [] then [] else join newline ts @ newline)"
  by (induction ts rule: join.induct[of _ newline]) auto

lemma py_strip_concat_lines:
  "py_strip (concat (map (\<lambda>t. t @ newline) ts)) = py_strip (join newline ts)"
  by (simp add: concat_lines_join py_strip_append_newline)

section \<open>Text-only responses\<close>

lemma process_block_text:
  "is_text_block block t \<Longrightarrow>
   process_block env block (acc, self, w) = (Inr (acc @ t @ newline), self, w)"
  by (simp add: process_block_def is_text_block_def)

lemma process_blocks_text:
  "list_all2 is_text_block blocks texts \<Longrightarrow>
   process_blocks env blocks (acc, self, w)
     = (Inr (acc @ concat (map (\<lambda>t. t @ newline) texts)), self, w)"
proof (induction blocks texts arbitrary: acc rule: list_all2_induct)
  case Nil
  show ?case by simp
next
  case (Cons b bs t ts)
  then show ?case by (simp add: process_block_text)
qed

text \<open>
  Claim C4. For a response dictionary without the key \<open>error\<close> whose \<open>content\<close> is a
  list of text blocks with the texts \<open>texts\<close>, \<open>process_claude_response\<close> returns the
  texts joined by newlines, stripped of surrounding whitespace; history and world are
  unchanged.
\<close>

theorem text_only_response_display:
  assumes "map_of kvs (ustr ''error'') = None"
    and "map_of kvs (ustr ''content'') = Some (JArr blocks)"
    and "list_all2 is_text_block blocks texts"
  shows "process_claude_response env (JObj kvs) self w
           = (Inr (py_strip (join newline texts)), self, w)"
proof -
  have "process_content env (JObj kvs) self w
          = (Inr (py_strip (concat (map (\<lambda>t. t @ newline) texts))), self, w)"
    using assms(2,3) by (simp add: process_content_def process_blocks_text)
  then show ?thesis
    using assms(1) by (simp add: process_claude_response_def py_strip_concat_lines)
qed

theorem text_only_response_display_witness:
  "process_claude_response (log_env (http_ok JNull) TimeoutExpired)
     (api_response [text_block (ustr ''VM 100 is running. ''), text_block (ustr ''Done.'')])
     (init (ustr ''key'')) ([], [])
   = (Inr (ustr ''VM 100 is running. '' @ newline @ ustr ''Done.''), init (ustr ''key''), ([], []))"
proof -
  have a: "map_of [(ustr ''role'', JStr (ustr ''assistant'')),
                   (ustr ''content'', JArr [text_block (ustr ''VM 100 is running. ''),
                                            text_block (ustr ''Done.'')])]
             (ustr ''error'') = None"
    by simp
  have b: "map_of [(ustr ''role'', JStr (ustr ''assistant'')),
                   (ustr ''content'', JArr [text_block (ustr ''VM 100 is running. ''),
                                            text_block (ustr ''Done.'')])]
             (ustr ''content'')
           = Some (JArr [text_block (ustr ''VM 100 is running. ''), text_block (ustr ''Done.'')])"
    by simp
  have c: "list_all2 is_text_block
             [text_block (ustr ''VM 100 is running. ''), text_block (ustr ''Done.'')]
             [ustr ''VM 100 is running. '', ustr ''Done.'']"
    by (simp add: is_text_block_def text_block_def)
  have d: "py_strip (join newline [ustr ''VM 100 is running. '', ustr ''Done.''])
             = ustr ''VM 100 is running. '' @ newline @ ustr ''Done.''"
    by (simp add: py_strip_def py_lstrip_def py_rstrip_def newline_def ustr_def is_space_def)
  show ?thesis
    using text_only_response_display [OF a b c] d by (simp add: api_response_def)
qed

section \<open>The transport\<close>

lemma request_failed_not_RequestException: "request_failed e \<noteq> Inl (RequestException m)"
  by (cases e) (simp_all add: request_failed_def)

lemma send_message_cases:
  "send_message_to_claude env self message w =
     (case requests_post env w (api_url self) (headers self) (payload self message) of
        (Inl e, w') \<Rightarrow> (request_failed e, w')
      | (Inr response, w') \<Rightarrow>
          (if 400 \<le> status_code response \<and> status_code response < 600
           then (request_failed (RequestException (http_error_msg response)), w')
           else case json_body response of
                  Inl e \<Rightarrow> (request_failed e, w')
                | Inr body \<Rightarrow> (Inr body, w')))"
  by (simp add: send_message_to_claude_def raise_for_status_def split: prod.splits sum.splits)

text \<open>
  Claim C6. \<open>send_message_to_claude\<close> never lets a \<open>RequestException\<close> out. When
  \<open>requests.post\<close> raises one, when the status of the response is from 400 to 599 (so
  that \<open>raise_for_status\<close> raises one), or when reading the body raises one, the result is
  the dictionary with the key \<open>error\<close> and the message \<open>API request failed: ...\<close> followed
  by the text of the exception.
\<close>

theorem send_message_catches_request_exceptions:
  "fst (send_message_to_claude env self message w) \<noteq> Inl (RequestException m) \<and>
   (requests_post env w (api_url self) (headers self) (payload self message)
      = (Inl (RequestException m), w') \<longrightarrow>
    send_message_to_claude env self message w
      = (Inr (JObj [(ustr ''error'', JStr (ustr ''API request failed: '' @ m))]), w')) \<and>
   (requests_post env w (api_url self) (headers self) (payload self message) = (Inr response, w')
      \<and> 400 \<le> status_code response \<and> status_code response < 600 \<longrightarrow>
    send_message_to_claude env self message w
      = (Inr (JObj [(ustr ''error'',
                     JStr (ustr ''API request failed: '' @ http_error_msg response))]), w')) \<and>
   (requests_post env w (api_url self) (headers self) (payload self message) = (Inr response, w')
      \<and> \<not> (400 \<le> status_code response \<and> status_code response < 600)
      \<and> json_body response = Inl (RequestException m) \<longrightarrow>
    send_message_to_claude env self message w
      = (Inr (JObj [(ustr ''error'', JStr (ustr ''API request failed: '' @ m))]), w'))"
proof (intro conjI impI)
  show "fst (send_message_to_claude env self message w) \<noteq> Inl (RequestException m)"
    by (simp add: send_message_cases request_failed_not_RequestException
        split: prod.splits sum.splits)
qed (auto simp: send_message_cases request_failed_def)

theorem send_message_catches_request_exceptions_witness:
  "send_message_to_claude
     (log_env (Inl (RequestException (ustr ''Connection refused''))) TimeoutExpired)
     (init (ustr ''key'')) (ustr ''list vms'') ([], [])
   = (Inr (JObj [(ustr ''error'', JStr (ustr ''API request failed: Connection refused''))]),
      ([payload (init (ustr ''key'')) (ustr ''list vms'')], [])) \<and>
   send_message_to_claude
     (log_env (Inr \<lparr>status_code = 401, http_error_msg = ustr ''401 Client Error'',
                    json_body = Inr JNull\<rparr>) TimeoutExpired)
     (init (ustr ''key'')) (ustr ''list vms'') ([], [])
   = (Inr (JObj [(ustr ''error'', JStr (ustr ''API request failed: 401 Client Error''))]),
      ([payload (init (ustr ''key'')) (ustr ''list vms'')], []))"
  using send_message_catches_request_exceptions
      [where env = "log_env (Inl (RequestException (ustr ''Connection refused''))) TimeoutExpired"
         and self = "init (ustr ''key'')" and message = "ustr ''list vms''" and w = "([], [])"
         and m = "ustr ''Connection refused''"
         and w' = "([payload (init (ustr ''key'')) (ustr ''list vms'')], [])"]
    send_message_catches_request_exceptions
      [where env = "log_env (Inr \<lparr>status_code = 401, http_error_msg = ustr ''401 Client Error'',
                         json_body = Inr JNull\<rparr>) TimeoutExpired"
         and self = "init (ustr ''key'')" and message = "ustr ''list vms''" and w = "([], [])"
         and response = "\<lparr>status_code = 401, http_error_msg = ustr ''401 Client Error'',
                           json_body = Inr JNull\<rparr>"
         and w' = "([payload (init (ustr ''key'')) (ustr ''list vms'')], [])"]
  by (simp add: log_env_def ustr_def)

section \<open>Commands\<close>

lemma process_block_bash:
  "is_bash_block block tool_id command \<Longrightarrow>
   process_block env block (acc, self, w) = execute_bash env block command (acc, self, w)"
  by (auto simp: process_block_def is_bash_block_def split: sum.splits)

lemma execute_bash_cases:
  assumes "subscript block (ustr ''id'') = Inr tool_id"
    and "subprocess_run env w command 30 = (rr, w')"
  shows "execute_bash env block command (acc, self, w) =
     (case rr of
        CompletedProcess returncode out err \<Rightarrow>
          (Inr (acc @ (if returncode = 0 then command_successful out
                       else command_failed returncode err)),
           self\<lparr>conversation_history :=
                  conversation_history self @ [tool_result_turn tool_id returncode out err]\<rparr>,
           w')
      | TimeoutExpired \<Rightarrow> (Inr (acc @ command_timed_out), self, w')
      | RunRaised e \<Rightarrow>
          (if is_Exception e then (Inr (acc @ error_executing (str_exn env e)), self, w')
           else (Inl e, self, w')))"
  using assms by (simp add: execute_bash_def split: run_result.splits)

lemma messages_distinct:
  "command_successful out \<noteq> command_failed returncode err"
  "command_successful out \<noteq> command_timed_out"
  "command_successful out \<noteq> error_executing msg"
  "command_failed returncode err \<noteq> command_timed_out"
  "command_failed returncode err \<noteq> error_executing msg"
  "command_timed_out \<noteq> error_executing msg"
  by (simp_all add: command_successful_def command_failed_def command_timed_out_def
      error_executing_def check_mark_def cross_mark_def alarm_clock_def ustr_def)

text \<open>
  Claim C5, amended. For a block that calls \<open>bash\<close> and has an \<open>id\<close>, the text added
  to \<open>result_text\<close> follows
  what \<open>subprocess.run\<close>, called with the timeout 30, does: exit code 0 gives the success
  message with the standard output; another exit code gives the failure message with the
  exit code and the standard error; \<open>TimeoutExpired\<close> gives the timed-out message; any other
  \<open>Exception\<close> gives the execution-error message with the text of the exception. The four
  messages are pairwise different, whatever their arguments.
\<close>

theorem command_outcome_policy:
  assumes "is_bash_block block tool_id command"
    and "subprocess_run env w command 30 = (rr, w')"
  shows "fst (process_block env block (acc, self, w)) =
           (case rr of
              CompletedProcess returncode out err \<Rightarrow>
                if returncode = 0 then Inr (acc @ command_successful out)
                else Inr (acc @ command_failed returncode err)
            | TimeoutExpired \<Rightarrow> Inr (acc @ command_timed_out)
            | RunRaised e \<Rightarrow>
                if is_Exception e then Inr (acc @ error_executing (str_exn env e)) else Inl e) \<and>
         command_successful out' \<noteq> command_failed returncode' err' \<and>
         command_successful out' \<noteq> command_timed_out \<and>
         command_successful out' \<noteq> error_executing msg \<and>
         command_failed returncode' err' \<noteq> command_timed_out \<and>
         command_failed returncode' err' \<noteq> error_executing msg \<and>
         command_timed_out \<noteq> error_executing msg"
proof -
  have id: "subscript block (ustr ''id'') = Inr tool_id"
    using assms(1) by (simp add: is_bash_block_def)
  have "fst (process_block env block (acc, self, w)) =
           (case rr of
              CompletedProcess returncode out err \<Rightarrow>
                if returncode = 0 then Inr (acc @ command_successful out)
                else Inr (acc @ command_failed returncode err)
            | TimeoutExpired \<Rightarrow> Inr (acc @ command_timed_out)
            | RunRaised e \<Rightarrow>
                if is_Exception e then Inr (acc @ error_executing (str_exn env e)) else Inl e)"
    by (simp add: process_block_bash [OF assms(1)] execute_bash_cases [OF id assms(2)]
        split: run_result.splits)
  then show ?thesis
    by (simp add: messages_distinct)
qed


lemma is_bash_block_bash_block: "is_bash_block (bash_block i c) (JStr i) (JStr c)"
  by (simp add: is_bash_block_def bash_block_def)

theorem command_outcome_policy_witness:
  "fst (process_block (log_env (http_ok JNull) (CompletedProcess 0 (ustr ''hi'' @ newline) []))
          (bash_block (ustr ''toolu_1'') (ustr ''echo hi'')) ([], init (ustr ''key''), ([], [])))
     = Inr (check_mark # ustr '' Command successful:'' @ newline @ ustr ''hi'' @ newline @ newline) \<and>
   fst (process_block (log_env (http_ok JNull) (CompletedProcess 2 [] (ustr ''no such VM'')))
          (bash_block (ustr ''toolu_1'') (ustr ''qm start 999'')) ([], init (ustr ''key''), ([], [])))
     = Inr (cross_mark # ustr '' Command failed (exit 2):'' @ newline @ ustr ''no such VM'' @ newline) \<and>
   fst (process_block (log_env (http_ok JNull) TimeoutExpired)
          (bash_block (ustr ''toolu_1'') (ustr ''sleep 60'')) ([], init (ustr ''key''), ([], [])))
     = Inr (alarm_clock # ustr '' Command timed out'' @ newline) \<and>
   fst (process_block (log_env (http_ok JNull) (RunRaised (OtherException (ustr ''bad fd''))))
          (bash_block (ustr ''toolu_1'') (ustr ''ls'')) ([], init (ustr ''key''), ([], [])))
     = Inr (cross_mark # ustr '' Error executing command: bad fd'' @ newline)"
proof -
  have two: "str_int 2 = ustr ''2''"
    by (simp add: str_int_def digits.simps ustr_def)
  have "fst (process_block (log_env (http_ok JNull) rr) (bash_block (ustr ''toolu_1'') c)
               ([], init (ustr ''key''), ([], []))) =
          (case rr of
             CompletedProcess returncode out err \<Rightarrow>
               if returncode = 0 then Inr ([] @ command_successful out)
               else Inr ([] @ command_failed returncode err)
           | TimeoutExpired \<Rightarrow> Inr ([] @ command_timed_out)
           | RunRaised e \<Rightarrow>
               if is_Exception e
               then Inr ([] @ error_executing (str_exn (log_env (http_ok JNull) rr) e))
               else Inl e)" for rr c
    using command_outcome_policy [of "bash_block (ustr ''toolu_1'') c" "JStr (ustr ''toolu_1'')"
        "JStr c" "log_env (http_ok JNull) rr" "([], [])" rr "([], [JStr c])" "[]"
        "init (ustr ''key'')"]
    by (simp add: is_bash_block_bash_block log_env_def)
  then show ?thesis
    by (simp add: command_successful_def command_failed_def command_timed_out_def
        error_executing_def two is_Exception_def str_exn_def ustr_def)
qed

text \<open>
  The claim as stated fails for a block that calls \<open>bash\<close> and has no \<open>id\<close>: the
  command is run (it is in the log of the world) and exits with code 0, then reading
  \<open>block["id"]\<close> raises inside the inner \<open>try\<close>, and the text added is the
  execution-error message, not the success message.
\<close>

theorem command_without_id_counterexample:
  "process_block (log_env (http_ok JNull) (CompletedProcess 0 (ustr ''hi'' @ newline) []))
     (bash_block_without_id (ustr ''echo hi'')) ([], init (ustr ''key''), ([], []))
   = (Inr (cross_mark # ustr '' Error executing command: '' @ newline), init (ustr ''key''),
      ([], [JStr (ustr ''echo hi'')])) \<and>
   cross_mark # ustr '' Error executing command: '' @ newline
     \<noteq> command_successful (ustr ''hi'' @ newline)"
  by (simp add: process_block_def bash_block_without_id_def execute_bash_def log_env_def
      error_executing_def str_exn_def command_successful_def cross_mark_def check_mark_def)

text \<open>
  Claim C2, amended. For a block that calls \<open>bash\<close> and has an \<open>id\<close>: when
  \<open>subprocess.run\<close> returns, with whatever exit code, exactly one turn is appended to the
  history, a user turn whose content is one tool result with the \<open>tool_use_id\<close> of the
  block; when the run times out or raises, the history is left as it was.
\<close>

theorem tool_result_appended_when_run_returns:
  assumes "is_bash_block block tool_id command"
    and "subprocess_run env w command 30 = (rr, w')"
  shows "conversation_history (fst (snd (process_block env block (acc, self, w)))) =
           (case rr of
              CompletedProcess returncode out err \<Rightarrow>
                conversation_history self @
                  [JObj [(ustr ''role'', JStr (ustr ''user'')),
                         (ustr ''content'', JArr [tool_result tool_id returncode out err])]]
            | TimeoutExpired \<Rightarrow> conversation_history self
            | RunRaised e \<Rightarrow> conversation_history self) \<and>
         subscript (tool_result tool_id returncode' out' err') (ustr ''tool_use_id'') = Inr tool_id"
proof -
  have id: "subscript block (ustr ''id'') = Inr tool_id"
    using assms(1) by (simp add: is_bash_block_def)
  show ?thesis
    by (simp add: process_block_bash [OF assms(1)] execute_bash_cases [OF id assms(2)]
        tool_result_turn_def tool_result_def split: run_result.splits)
qed

theorem tool_result_appended_when_run_returns_witness:
  "conversation_history (fst (snd (process_block
      (log_env (http_ok JNull) (CompletedProcess 0 (ustr ''hi'' @ newline) []))
      (bash_block (ustr ''toolu_1'') (ustr ''echo hi'')) ([], init (ustr ''key''), ([], [])))))
   = [JObj [(ustr ''role'', JStr (ustr ''user'')),
            (ustr ''content'', JArr
               [JObj [(ustr ''type'', JStr (ustr ''tool_result'')),
                      (ustr ''tool_use_id'', JStr (ustr ''toolu_1'')),
                      (ustr ''content'', JStr (ustr ''Exit code: 0'' @ newline @ ustr ''Stdout: hi''
                          @ newline @ newline @ ustr ''Stderr: ''))]])]]"
proof -
  have zero: "str_int 0 = ustr ''0''"
    by (simp add: str_int_def digits.simps ustr_def)
  show ?thesis
    using tool_result_appended_when_run_returns
      [of "bash_block (ustr ''toolu_1'') (ustr ''echo hi'')" "JStr (ustr ''toolu_1'')"
          "JStr (ustr ''echo hi'')"
          "log_env (http_ok JNull) (CompletedProcess 0 (ustr ''hi'' @ newline) [])" "([], [])"
          "CompletedProcess 0 (ustr ''hi'' @ newline) []" "([], [JStr (ustr ''echo hi'')])" "[]"
          "init (ustr ''key'')"]
    by (simp add: is_bash_block_bash_block log_env_def tool_result_def zero init_def ustr_def)
qed

text \<open>
  The claim as stated fails for a command that times out: the command is run (it is in
  the log of the world), and the history, empty before, is empty afterwards.
\<close>

theorem no_tool_result_on_timeout_counterexample:
  "process_claude_response (log_env (http_ok JNull) TimeoutExpired)
     (api_response [bash_block (ustr ''toolu_1'') (ustr ''sleep 60'')])
     (init (ustr ''key'')) ([], [])
   = (Inr (alarm_clock # ustr '' Command timed out''), init (ustr ''key''),
      ([], [JStr (ustr ''sleep 60'')])) \<and>
   conversation_history (init (ustr ''key'')) = []"
  by (simp add: process_claude_response_def process_content_def api_response_def
      process_block_def execute_bash_def log_env_def
      command_timed_out_def py_strip_append_newline py_strip_Cons alarm_clock_def is_space_def
      py_rstrip_def init_def bash_block_def newline_def ustr_def)

section \<open>The history only grows\<close>

lemma execute_bash_prefix:
  "execute_bash env block command (acc, self, w) = (r, self', w') \<Longrightarrow>
   prefix (conversation_history self) (conversation_history self')"
  by (auto simp: execute_bash_def split: prod.splits run_result.splits sum.splits if_splits)

lemma process_block_prefix:
  "process_block env block (acc, self, w) = (r, self', w') \<Longrightarrow>
   prefix (conversation_history self) (conversation_history self')"
  by (auto simp: process_block_def split: sum.splits if_splits dest: execute_bash_prefix)

lemma process_blocks_prefix:
  "process_blocks env blocks (acc, self, w) = (r, self', w') \<Longrightarrow>
   prefix (conversation_history self) (conversation_history self')"
proof (induction blocks arbitrary: acc self w)
  case Nil
  then show ?case by simp
next
  case (Cons b bs)
  obtain r1 self1 w1 where b: "process_block env b (acc, self, w) = (r1, self1, w1)"
    by (cases "process_block env b (acc, self, w)") auto
  have p1: "prefix (conversation_history self) (conversation_history self1)"
    using b by (rule process_block_prefix)
  show ?case
  proof (cases r1)
    case (Inl e)
    with Cons.prems b p1 show ?thesis by simp
  next
    case (Inr acc1)
    with Cons.prems b have "process_blocks env bs (acc1, self1, w1) = (r, self', w')"
      by simp
    then have "prefix (conversation_history self1) (conversation_history self')"
      by (rule Cons.IH)
    with p1 show ?thesis by (rule prefix_order.trans)
  qed
qed

lemma process_content_prefix:
  "process_content env response self w = (r, self', w') \<Longrightarrow>
   prefix (conversation_history self) (conversation_history self')"
  by (auto simp: process_content_def split: sum.splits prod.splits dest: process_blocks_prefix)

lemma process_claude_response_prefix:
  "process_claude_response env response self w = (r, self', w') \<Longrightarrow>
   prefix (conversation_history self) (conversation_history self')"
  by (auto simp: process_claude_response_def
      split: sum.splits prod.splits bool.splits if_splits dest: process_content_prefix)

lemma chat_prefix:
  "chat env message self w = (r, self', w') \<Longrightarrow>
   prefix (conversation_history self) (conversation_history self')"
proof -
  assume c: "chat env message self w = (r, self', w')"
  let ?self1 = "self\<lparr>conversation_history := conversation_history self @ [user_turn message]\<rparr>"
  obtain resp w1 where s: "send_message_to_claude env ?self1 message w = (resp, w1)"
    by (cases "send_message_to_claude env ?self1 message w") auto
  show ?thesis
  proof (cases resp)
    case (Inl e)
    with c s show ?thesis by (auto simp: chat_def Let_def)
  next
    case (Inr response)
    obtain r2 self2 w2 where p: "process_claude_response env response ?self1 w1 = (r2, self2, w2)"
      by (cases "process_claude_response env response ?self1 w1") auto
    have "prefix (conversation_history ?self1) (conversation_history self2)"
      using p by (rule process_claude_response_prefix)
    then have a: "prefix (conversation_history self) (conversation_history self2)"
      by (auto simp: prefix_def)
    show ?thesis
      using c s Inr p a by (cases r2) (auto simp: chat_def Let_def prefix_def split: if_splits)
  qed
qed

text \<open>
  Claim C7. The history after \<open>process_claude_response\<close> and after \<open>chat\<close> has the
  history before as a prefix: turns are only added at the end. The same holds for one
  step of the interactive loop, except for the input line that is read as \<open>clear\<close>,
  after which the history is empty.
\<close>

theorem history_append_only:
  "prefix (conversation_history self)
     (conversation_history (fst (snd (process_claude_response env response self w)))) \<and>
   prefix (conversation_history self)
     (conversation_history (fst (snd (chat env message self w)))) \<and>
   (if is_clear env ev
    then conversation_history (fst (snd (interactive_step env ev self w))) = []
    else prefix (conversation_history self)
           (conversation_history (fst (snd (interactive_step env ev self w)))))"
proof (intro conjI)
  show "prefix (conversation_history self)
     (conversation_history (fst (snd (process_claude_response env response self w))))"
    by (rule process_claude_response_prefix [of env response self w]) (simp add: prod_eq_iff)
  show "prefix (conversation_history self)
     (conversation_history (fst (snd (chat env message self w))))"
    by (rule chat_prefix [of env message self w]) (simp add: prod_eq_iff)
  show "if is_clear env ev
    then conversation_history (fst (snd (interactive_step env ev self w))) = []
    else prefix (conversation_history self)
           (conversation_history (fst (snd (interactive_step env ev self w))))"
    by (cases ev)
      (auto simp: interactive_step_def is_clear_def Let_def split: prod.splits sum.splits
        dest: chat_prefix)
qed

theorem history_append_only_witness:
  "conversation_history (fst (snd (interactive_step
      (log_env (http_ok (api_response [text_block (ustr ''ok'')])) TimeoutExpired)
      (Line (ustr '' Clear ''))
      ((init (ustr ''key''))\<lparr>conversation_history := [user_turn (ustr ''qm list'')]\<rparr>)
      ([], [])))) = [] \<and>
   prefix [user_turn (ustr ''qm list'')]
     (conversation_history (fst (snd (interactive_step
        (log_env (http_ok (api_response [text_block (ustr ''ok'')])) TimeoutExpired)
        (Line (ustr ''status''))
        ((init (ustr ''key''))\<lparr>conversation_history := [user_turn (ustr ''qm list'')]\<rparr>)
        ([], [])))))"
proof -
  have a: "is_clear (log_env h rr) (Line (ustr '' Clear ''))" for h rr
    by (simp add: is_clear_def log_env_def ascii_lower_def py_strip_def py_lstrip_def
        py_rstrip_def is_space_def ustr_def)
  have b: "\<not> is_clear (log_env h rr) (Line (ustr ''status''))" for h rr
    by (simp add: is_clear_def log_env_def ascii_lower_def py_strip_def py_lstrip_def
        py_rstrip_def is_space_def ustr_def)
  show ?thesis
    using history_append_only
        [of "(init (ustr ''key''))\<lparr>conversation_history := [user_turn (ustr ''qm list'')]\<rparr>"
          "log_env (http_ok (api_response [text_block (ustr ''ok'')])) TimeoutExpired"
          JNull "([], [])" "[]" "Line (ustr '' Clear '')"]
      history_append_only
        [of "(init (ustr ''key''))\<lparr>conversation_history := [user_turn (ustr ''qm list'')]\<rparr>"
          "log_env (http_ok (api_response [text_block (ustr ''ok'')])) TimeoutExpired"
          JNull "([], [])" "[]" "Line (ustr ''status'')"]
    by (simp add: a b)
qed

section \<open>Chat rounds\<close>

lemma chat_result:
  assumes "send_message_to_claude env
             (self\<lparr>conversation_history := conversation_history self @ [user_turn message]\<rparr>)
             message w = (Inr response, w1)"
    and "process_claude_response env response
           (self\<lparr>conversation_history := conversation_history self @ [user_turn message]\<rparr>) w1
         = (Inr result, self2, w2)"
  shows "chat env message self w =
           (Inr result,
            (if startswith result [cross_mark] then self2
             else self2\<lparr>conversation_history :=
                          conversation_history self2 @ [assistant_turn result]\<rparr>),
            w2)"
  using assms by (simp add: chat_def Let_def)

text \<open>
  Claim C3. When \<open>send_message_to_claude\<close> returns a dictionary with the key \<open>error\<close>
  (as it does for every \<open>RequestException\<close>), the result of \<open>chat\<close> is the cross mark
  followed by \<open>Error:\<close> and the error text; the history is the history before with the
  user turn appended and nothing else; and the world is the one the request left, so no
  command was run.
\<close>

theorem transport_error_round:
  assumes "send_message_to_claude env
             (self\<lparr>conversation_history := conversation_history self @ [user_turn message]\<rparr>)
             message w = (Inr (JObj kvs), w1)"
    and "map_of kvs (ustr ''error'') = Some v"
  shows "chat env message self w =
           (Inr (cross_mark # ustr '' Error: '' @ py_format env v),
            self\<lparr>conversation_history := conversation_history self @ [user_turn message]\<rparr>,
            w1)"
proof -
  have "process_claude_response env (JObj kvs)
          (self\<lparr>conversation_history := conversation_history self @ [user_turn message]\<rparr>) w1
        = (Inr (cross_mark # ustr '' Error: '' @ py_format env v),
           self\<lparr>conversation_history := conversation_history self @ [user_turn message]\<rparr>, w1)"
    using assms(2) by (simp add: process_claude_response_def)
  from chat_result [OF assms(1) this] show ?thesis
    by (simp add: startswith_Cons)
qed

theorem transport_error_round_witness:
  "chat (log_env (Inl (RequestException (ustr ''Connection refused'')))
           (CompletedProcess 0 [] []))
     (ustr ''list vms'') (init (ustr ''key'')) ([], [])
   = (Inr (cross_mark # ustr '' Error: API request failed: Connection refused''),
      (init (ustr ''key''))\<lparr>conversation_history := [user_turn (ustr ''list vms'')]\<rparr>,
      ([payload ((init (ustr ''key''))\<lparr>conversation_history := [user_turn (ustr ''list vms'')]\<rparr>)
          (ustr ''list vms'')], []))"
proof -
  have s: "send_message_to_claude
             (log_env (Inl (RequestException (ustr ''Connection refused''))) (CompletedProcess 0 [] []))
             ((init (ustr ''key''))\<lparr>conversation_history :=
                conversation_history (init (ustr ''key'')) @ [user_turn (ustr ''list vms'')]\<rparr>)
             (ustr ''list vms'') ([], [])
           = (Inr (JObj [(ustr ''error'', JStr (ustr ''API request failed: '' @ ustr ''Connection refused''))]),
              ([payload ((init (ustr ''key''))\<lparr>conversation_history :=
                  conversation_history (init (ustr ''key'')) @ [user_turn (ustr ''list vms'')]\<rparr>)
                  (ustr ''list vms'')], []))"
    by (simp add: send_message_to_claude_def log_env_def request_failed_def)
  have m: "map_of [(ustr ''error'', JStr (ustr ''API request failed: '' @ ustr ''Connection refused''))]
             (ustr ''error'') = Some (JStr (ustr ''API request failed: '' @ ustr ''Connection refused''))"
    by simp
  show ?thesis
    using transport_error_round [OF s m]
    by (simp add: py_format_def init_def ustr_def)
qed

lemma execute_bash_extends:
  "execute_bash env block command (acc, self, w) = (Inr acc', self', w') \<Longrightarrow> \<exists>x. acc' = acc @ x"
  by (auto simp: execute_bash_def split: prod.splits run_result.splits sum.splits if_splits)

lemma concat_newline_Inr: "concat_newline t = Inr line \<Longrightarrow> \<exists>s. t = JStr s \<and> line = s @ newline"
  by (cases t) auto

lemma process_block_extends:
  assumes "process_block env block (acc, self, w) = (Inr acc', self', w')"
  shows "\<exists>x. acc' = acc @ x"
proof (cases "subscript block (ustr ''type'')")
  case (Inl e)
  with assms show ?thesis by (simp add: process_block_def)
next
  case ty: (Inr ty)
  show ?thesis
  proof (cases "ty = JStr (ustr ''text'')")
    case True
    with assms ty show ?thesis
      by (auto simp: process_block_def split: sum.splits dest!: concat_newline_Inr)
  next
    case nt: False
    show ?thesis
    proof (cases "ty = JStr (ustr ''tool_use'')")
      case False
      with assms ty nt show ?thesis by (simp add: process_block_def)
    next
      case True
      with assms ty nt show ?thesis
        by (auto simp: process_block_def split: sum.splits if_splits dest!: execute_bash_extends)
    qed
  qed
qed


lemma process_blocks_extends:
  "process_blocks env blocks (acc, self, w) = (Inr acc', self', w') \<Longrightarrow> \<exists>x. acc' = acc @ x"
proof (induction blocks arbitrary: acc self w)
  case Nil
  then show ?case by simp
next
  case (Cons b bs)
  obtain r1 self1 w1 where b: "process_block env b (acc, self, w) = (r1, self1, w1)"
    by (cases "process_block env b (acc, self, w)") auto
  show ?case
  proof (cases r1)
    case (Inl e)
    with Cons.prems b show ?thesis by simp
  next
    case (Inr acc1)
    from b Inr have "process_block env b (acc, self, w) = (Inr acc1, self1, w1)"
      by simp
    then have "\<exists>x. acc1 = acc @ x"
      by (rule process_block_extends)
    then obtain x where x: "acc1 = acc @ x" ..
    from Cons.prems b Inr have "process_blocks env bs (acc1, self1, w1) = (Inr acc', self', w')"
      by simp
    then have "\<exists>y. acc' = acc1 @ y"
      by (rule Cons.IH)
    then obtain y where "acc' = acc1 @ y" ..
    with x show ?thesis by simp
  qed
qed

lemma process_block_calls_bash:
  "calls_bash block command \<Longrightarrow>
   process_block env block (acc, self, w) = execute_bash env block command (acc, self, w)"
  by (auto simp: process_block_def calls_bash_def split: sum.splits)

lemma is_bash_block_calls_bash: "is_bash_block block tool_id command \<Longrightarrow> calls_bash block command"
  by (simp add: is_bash_block_def calls_bash_def)

lemma execute_bash_failing:
  assumes "subprocess_run env w command 30 = (rr, w')"
    and "rr = CompletedProcess returncode out err \<and> returncode \<noteq> 0 \<or> rr = RunRaised e"
  shows "(\<exists>t self1. execute_bash env block command (acc, self, w)
                        = (Inr (acc @ cross_mark # t), self1, w')) \<or>
         (\<exists>x. execute_bash env block command (acc, self, w) = (Inl x, self, w'))"
proof (cases "is_Exception e")
  case True
  show ?thesis
  proof (cases "subscript block (ustr ''id'')")
    case (Inl x)
    with assms True show ?thesis
      by (auto simp: execute_bash_def error_executing_def)
  next
    case (Inr tool_id)
    with assms True show ?thesis
      by (auto simp: execute_bash_def error_executing_def command_failed_def)
  qed
next
  case False
  show ?thesis
  proof (cases "subscript block (ustr ''id'')")
    case (Inl x)
    with assms False show ?thesis
      by (auto simp: execute_bash_def error_executing_def)
  next
    case (Inr tool_id)
    with assms False show ?thesis
      by (auto simp: execute_bash_def error_executing_def command_failed_def)
  qed
qed

lemma execute_bash_timed_out:
  "subprocess_run env w command 30 = (TimeoutExpired, w') \<Longrightarrow>
   execute_bash env block command (acc, self, w)
     = (Inr (acc @ alarm_clock # ustr '' Command timed out'' @ newline), self, w')"
  by (simp add: execute_bash_def command_timed_out_def)

lemma not_space_alarm_clock: "\<not> is_space alarm_clock"
  by (simp add: is_space_def alarm_clock_def)

text \<open>
  When the first block puts a character that is not white space at the head of
  \<open>result_text\<close> and the loop completes, the result starts with that character.
\<close>

lemma process_content_head:
  assumes "map_of kvs (ustr ''content'') = Some (JArr (block # blocks))"
    and "process_block env block ([], self, w) = (Inr (c # t), self1, w1)"
    and "\<not> is_space c"
    and "process_content env (JObj kvs) self w = (Inr res, self3, w3)"
  shows "startswith res [c]"
proof -
  from assms(1,2,4) obtain acc' where
    p: "process_blocks env blocks (c # t, self1, w1) = (Inr acc', self3, w3)"
    and res: "res = py_strip acc'"
    by (auto simp: process_content_def split: prod.splits sum.splits)
  from process_blocks_extends [OF p] obtain x where "acc' = c # t @ x"
    by auto
  with res assms(3) have "res = c # py_rstrip (t @ x)"
    by (simp add: py_strip_Cons)
  then show ?thesis
    by (simp add: startswith_Cons)
qed

lemma failing_first_block_result:
  assumes "map_of kvs (ustr ''error'') = None"
    and "map_of kvs (ustr ''content'') = Some (JArr (block # blocks))"
    and "calls_bash block command"
    and "subprocess_run env w command 30 = (rr, w')"
    and "rr = CompletedProcess returncode out err \<and> returncode \<noteq> 0 \<or> rr = RunRaised e"
    and "process_claude_response env (JObj kvs) self w = (Inr result, self2, w2)"
  shows "startswith result [cross_mark]"
proof -
  obtain r3 self3 w3 where c: "process_content env (JObj kvs) self w = (r3, self3, w3)"
    by (cases "process_content env (JObj kvs) self w") auto
  show ?thesis
  proof (cases r3)
    case (Inl x)
    with assms(1,6) c show ?thesis
      by (auto simp: process_claude_response_def startswith_Cons split: if_splits)
  next
    case (Inr res)
    with assms(1,6) c have res: "result = res"
      by (simp add: process_claude_response_def)
    from execute_bash_failing [OF assms(4,5), of block "[]" self]
    show ?thesis
    proof
      assume "\<exists>t self1. execute_bash env block command ([], self, w)
                = (Inr ([] @ cross_mark # t), self1, w')"
      then obtain t self1 where
        "process_block env block ([], self, w) = (Inr (cross_mark # t), self1, w')"
        by (auto simp: process_block_calls_bash [OF assms(3)])
      from process_content_head [OF assms(2) this not_space_cross_mark] c Inr res
      show ?thesis by simp
    next
      assume "\<exists>x. execute_bash env block command ([], self, w) = (Inl x, self, w')"
      then obtain x where "process_block env block ([], self, w) = (Inl x, self, w')"
        by (auto simp: process_block_calls_bash [OF assms(3)])
      with assms(2) c Inr show ?thesis
        by (simp add: process_content_def)
    qed
  qed
qed

lemma timed_out_first_block_result:
  assumes "map_of kvs (ustr ''error'') = None"
    and "map_of kvs (ustr ''content'') = Some (JArr (block # blocks))"
    and "calls_bash block command"
    and "subprocess_run env w command 30 = (TimeoutExpired, w')"
    and "process_content env (JObj kvs) self w = (Inr res, self3, w3)"
    and "process_claude_response env (JObj kvs) self w = (Inr result, self2, w2)"
  shows "startswith result [alarm_clock]"
proof -
  have "process_block env block ([], self, w)
          = (Inr (alarm_clock # ustr '' Command timed out'' @ newline), self, w')"
    using execute_bash_timed_out [OF assms(4), of block "[]" self]
    by (simp add: process_block_calls_bash [OF assms(3)])
  from process_content_head [OF assms(2) this not_space_alarm_clock assms(5)]
  have "startswith res [alarm_clock]" .
  moreover from assms(1,5,6) have "result = res"
    by (simp add: process_claude_response_def)
  ultimately show ?thesis by simp
qed

lemma startswith_alarm_clock_not_cross_mark:
  "startswith result [alarm_clock] \<Longrightarrow> \<not> startswith result [cross_mark]"
  by (auto simp: startswith_def alarm_clock_def cross_mark_def)

text \<open>
  Claim C10, amended. When the request and the processing of the response return, \<open>chat\<close>
  appends the assistant turn exactly when the result does not start with the cross mark.
  When the first block of the content calls \<open>bash\<close> and the command exits with a code
  other than 0 or fails to launch, the result starts with the cross mark and no assistant
  turn is appended. When the command of the first block times out and the loop over the
  blocks completes without an exception, the result starts with the alarm clock and the
  assistant turn is appended.
\<close>

theorem assistant_turn_decided_by_cross_mark:
  assumes "send_message_to_claude env
             (self\<lparr>conversation_history := conversation_history self @ [user_turn message]\<rparr>)
             message w = (Inr response, w1)"
    and "process_claude_response env response
           (self\<lparr>conversation_history := conversation_history self @ [user_turn message]\<rparr>) w1
         = (Inr result, self2, w2)"
  shows "chat env message self w =
           (Inr result,
            (if startswith result [cross_mark] then self2
             else self2\<lparr>conversation_history :=
                          conversation_history self2 @ [assistant_turn result]\<rparr>),
            w2) \<and>
         (response = JObj kvs \<and> map_of kvs (ustr ''error'') = None \<and>
          map_of kvs (ustr ''content'') = Some (JArr (block # blocks)) \<and>
          calls_bash block command \<and>
          subprocess_run env w1 command 30 = (rr, w') \<and>
          (rr = CompletedProcess returncode out err \<and> returncode \<noteq> 0 \<or> rr = RunRaised e)
          \<longrightarrow> startswith result [cross_mark] \<and> chat env message self w = (Inr result, self2, w2)) \<and>
         (response = JObj kvs \<and> map_of kvs (ustr ''error'') = None \<and>
          map_of kvs (ustr ''content'') = Some (JArr (block # blocks)) \<and>
          calls_bash block command \<and>
          subprocess_run env w1 command 30 = (TimeoutExpired, w') \<and>
          process_content env response
            (self\<lparr>conversation_history := conversation_history self @ [user_turn message]\<rparr>) w1
            = (Inr res, self3, w3)
          \<longrightarrow> startswith result [alarm_clock] \<and>
              chat env message self w =
                (Inr result,
                 self2\<lparr>conversation_history :=
                         conversation_history self2 @ [assistant_turn result]\<rparr>,
                 w2))"
proof (intro conjI impI)
  show c: "chat env message self w =
           (Inr result,
            (if startswith result [cross_mark] then self2
             else self2\<lparr>conversation_history :=
                          conversation_history self2 @ [assistant_turn result]\<rparr>),
            w2)"
    using assms by (rule chat_result)
  {
    assume h: "response = JObj kvs \<and> map_of kvs (ustr ''error'') = None \<and>
          map_of kvs (ustr ''content'') = Some (JArr (block # blocks)) \<and>
          calls_bash block command \<and>
          subprocess_run env w1 command 30 = (rr, w') \<and>
          (rr = CompletedProcess returncode out err \<and> returncode \<noteq> 0 \<or> rr = RunRaised e)"
    then show s: "startswith result [cross_mark]"
      using failing_first_block_result [of kvs block blocks command env w1 rr w'
          returncode out err e _ result self2 w2] assms(2)
      by blast
    with c show "chat env message self w = (Inr result, self2, w2)"
      by simp
  }
  {
    assume h: "response = JObj kvs \<and> map_of kvs (ustr ''error'') = None \<and>
          map_of kvs (ustr ''content'') = Some (JArr (block # blocks)) \<and>
          calls_bash block command \<and>
          subprocess_run env w1 command 30 = (TimeoutExpired, w') \<and>
          process_content env response
            (self\<lparr>conversation_history := conversation_history self @ [user_turn message]\<rparr>) w1
            = (Inr res, self3, w3)"
    then show s: "startswith result [alarm_clock]"
      using timed_out_first_block_result [of kvs block blocks command env w1 w' _ res self3 w3
          result self2 w2] assms(2)
      by blast
    with c show "chat env message self w =
                (Inr result,
                 self2\<lparr>conversation_history :=
                         conversation_history self2 @ [assistant_turn result]\<rparr>,
                 w2)"
      by (simp add: startswith_alarm_clock_not_cross_mark)
  }
qed

lemma send_log_env:
  "send_message_to_claude (log_env (http_ok body) rr) self message (ps, cs)
     = (Inr body, (ps @ [payload self message], cs))"
  by (simp add: send_message_to_claude_def log_env_def http_ok_def raise_for_status_def)

lemma run_log_env: "subprocess_run (log_env h rr) (ps, cs) command 30 = (rr, (ps, cs @ [command]))"
  by (simp add: log_env_def)

text \<open>
  The claim as stated fails for a first block whose command times out: the result starts
  with the alarm clock, which is not the cross mark, and the assistant turn is appended.
\<close>

theorem timed_out_round_appends_assistant_turn_counterexample:
  "chat (log_env (http_ok (api_response [bash_block (ustr ''toolu_1'') (ustr ''sleep 60'')]))
           TimeoutExpired)
     (ustr ''wait a minute'') (init (ustr ''key'')) ([], [])
   = (Inr (alarm_clock # ustr '' Command timed out''),
      (init (ustr ''key''))\<lparr>conversation_history :=
         [user_turn (ustr ''wait a minute''),
          assistant_turn (alarm_clock # ustr '' Command timed out'')]\<rparr>,
      ([payload ((init (ustr ''key''))\<lparr>conversation_history := [user_turn (ustr ''wait a minute'')]\<rparr>)
          (ustr ''wait a minute'')],
       [JStr (ustr ''sleep 60'')])) \<and>
   alarm_clock \<noteq> cross_mark"
proof -
  have p: "process_claude_response (log_env h TimeoutExpired)
             (api_response [bash_block (ustr ''toolu_1'') (ustr ''sleep 60'')]) self (ps, [])
           = (Inr (alarm_clock # ustr '' Command timed out''), self, (ps, [JStr (ustr ''sleep 60'')]))"
    for h self ps
    by (simp add: process_claude_response_def process_content_def api_response_def
        process_block_def execute_bash_def log_env_def
        command_timed_out_def py_strip_append_newline py_strip_Cons alarm_clock_def is_space_def
        py_rstrip_def bash_block_def newline_def ustr_def)
  show ?thesis
    by (simp add: chat_def Let_def send_log_env p startswith_def init_def)
      (simp add: alarm_clock_def cross_mark_def)
qed


theorem assistant_turn_decided_by_cross_mark_witness:
  "chat (log_env (http_ok (api_response [bash_block (ustr ''toolu_1'') (ustr ''qm start 999'')]))
           (CompletedProcess 2 [] (ustr ''no such VM'')))
     (ustr ''start vm 999'') (init (ustr ''key'')) ([], [])
   = (Inr (cross_mark # ustr '' Command failed (exit 2):'' @ newline @ ustr ''no such VM''),
      (init (ustr ''key''))\<lparr>conversation_history :=
         [user_turn (ustr ''start vm 999''),
          tool_result_turn (JStr (ustr ''toolu_1'')) 2 [] (ustr ''no such VM'')]\<rparr>,
      ([payload ((init (ustr ''key''))\<lparr>conversation_history := [user_turn (ustr ''start vm 999'')]\<rparr>)
          (ustr ''start vm 999'')],
       [JStr (ustr ''qm start 999'')]))"
proof -
  let ?env = "log_env (http_ok (api_response [bash_block (ustr ''toolu_1'') (ustr ''qm start 999'')]))
           (CompletedProcess 2 [] (ustr ''no such VM''))"
  let ?self1 = "(init (ustr ''key''))\<lparr>conversation_history :=
                  conversation_history (init (ustr ''key'')) @ [user_turn (ustr ''start vm 999'')]\<rparr>"
  let ?w1 = "([payload ?self1 (ustr ''start vm 999'')], [])"
  have two: "str_int 2 = ustr ''2''"
    by (simp add: str_int_def digits.simps ustr_def)
  have s: "send_message_to_claude ?env ?self1 (ustr ''start vm 999'') ([], [])
             = (Inr (api_response [bash_block (ustr ''toolu_1'') (ustr ''qm start 999'')]), ?w1)"
    by (simp add: send_log_env)
  have p: "process_claude_response ?env
             (api_response [bash_block (ustr ''toolu_1'') (ustr ''qm start 999'')]) ?self1 ?w1
           = (Inr (cross_mark # ustr '' Command failed (exit 2):'' @ newline @ ustr ''no such VM''),
              ?self1\<lparr>conversation_history := conversation_history ?self1 @
                 [tool_result_turn (JStr (ustr ''toolu_1'')) 2 [] (ustr ''no such VM'')]\<rparr>,
              ([payload ?self1 (ustr ''start vm 999'')], [JStr (ustr ''qm start 999'')]))"
    by (simp add: process_claude_response_def process_content_def api_response_def
        process_block_def execute_bash_def log_env_def two
        command_failed_def py_strip_def py_lstrip_def cross_mark_def is_space_def
        py_rstrip_def bash_block_def newline_def ustr_def)
  have h: "api_response [bash_block (ustr ''toolu_1'') (ustr ''qm start 999'')]
             = JObj [(ustr ''role'', JStr (ustr ''assistant'')),
                     (ustr ''content'', JArr [bash_block (ustr ''toolu_1'') (ustr ''qm start 999'')])] \<and>
           map_of [(ustr ''role'', JStr (ustr ''assistant'')),
                   (ustr ''content'', JArr [bash_block (ustr ''toolu_1'') (ustr ''qm start 999'')])]
             (ustr ''error'') = None \<and>
           map_of [(ustr ''role'', JStr (ustr ''assistant'')),
                   (ustr ''content'', JArr [bash_block (ustr ''toolu_1'') (ustr ''qm start 999'')])]
             (ustr ''content'')
             = Some (JArr (bash_block (ustr ''toolu_1'') (ustr ''qm start 999'') # [])) \<and>
           calls_bash (bash_block (ustr ''toolu_1'') (ustr ''qm start 999''))
             (JStr (ustr ''qm start 999'')) \<and>
           subprocess_run ?env ?w1 (JStr (ustr ''qm start 999'')) 30
             = (CompletedProcess 2 [] (ustr ''no such VM''),
                ([payload ?self1 (ustr ''start vm 999'')], [JStr (ustr ''qm start 999'')])) \<and>
           (CompletedProcess 2 [] (ustr ''no such VM'') = CompletedProcess 2 [] (ustr ''no such VM'')
              \<and> (2::int) \<noteq> 0
            \<or> CompletedProcess 2 [] (ustr ''no such VM'') = RunRaised KeyboardInterrupt)"
    by (simp add: api_response_def is_bash_block_bash_block [THEN is_bash_block_calls_bash]
        run_log_env)
  from assistant_turn_decided_by_cross_mark [OF s p, THEN conjunct2, THEN conjunct1, rule_format,
      OF h]
  show ?thesis
    by (simp add: init_def)
qed

section \<open>The payload of a round\<close>

lemma payload_messages:
  "subscript (payload self message) (ustr ''messages'')
     = Inr (JArr (conversation_history self @ [user_turn message]))"
  by (simp add: payload_def)

lemma chat_posts_user_turn_twice:
  "requests_post env w (api_url self) (headers self)
     (payload (self\<lparr>conversation_history := conversation_history self @ [user_turn message]\<rparr>)
        message) = (r, w1) \<Longrightarrow>
   snd (send_message_to_claude env
          (self\<lparr>conversation_history := conversation_history self @ [user_turn message]\<rparr>)
          message w) = w1 \<and>
   subscript
     (payload (self\<lparr>conversation_history := conversation_history self @ [user_turn message]\<rparr>)
        message) (ustr ''messages'')
     = Inr (JArr (conversation_history self @ [user_turn message, user_turn message]))"
  by (simp add: payload_messages send_message_cases split: sum.splits)

text \<open>
  Claim C1. After \<open>clear\<close> the history is empty, but the payload of the next round does
  not hold one message: \<open>chat\<close> appends the user turn to the history and
  \<open>send_message_to_claude\<close> then appends it once more, so the payload holds the user turn
  twice. Here the session had two turns, the user enters \<open>clear\<close> and then \<open>hi\<close>.
\<close>

theorem clear_then_chat_posts_user_turn_twice:
  "interactive_mode (log_env (http_ok (api_response [text_block (ustr ''ok'')])) TimeoutExpired)
     [Line (ustr ''clear''), Line (ustr ''hi'')]
     ((init (ustr ''key''))\<lparr>conversation_history :=
        [user_turn (ustr ''qm list''), assistant_turn (ustr ''no VMs'')]\<rparr>)
     ([], [])
   = (Continue,
      (init (ustr ''key''))\<lparr>conversation_history :=
        [user_turn (ustr ''hi''), assistant_turn (ustr ''ok'')]\<rparr>,
      ([payload ((init (ustr ''key''))\<lparr>conversation_history := [user_turn (ustr ''hi'')]\<rparr>)
          (ustr ''hi'')], [])) \<and>
   subscript
     (payload ((init (ustr ''key''))\<lparr>conversation_history := [user_turn (ustr ''hi'')]\<rparr>)
        (ustr ''hi''))
     (ustr ''messages'')
   = Inr (JArr [user_turn (ustr ''hi''), user_turn (ustr ''hi'')])"
proof -
  have p: "process_claude_response (log_env h rr) (api_response [text_block (ustr ''ok'')]) self w
             = (Inr (ustr ''ok''), self, w)" for h rr self w
    by (simp add: process_claude_response_def process_content_def api_response_def
        process_block_def text_block_def py_strip_append_newline)
      (simp add: py_strip_def py_lstrip_def py_rstrip_def is_space_def ustr_def)
  have l: "ascii_lower (ustr ''clear'') = ustr ''clear''" "ascii_lower (ustr ''hi'') = ustr ''hi''"
    by (simp_all add: ascii_lower_def ustr_def)
  have st: "py_strip (ustr ''clear'') = ustr ''clear''" "py_strip (ustr ''hi'') = ustr ''hi''"
    by (simp_all add: py_strip_def py_lstrip_def py_rstrip_def is_space_def ustr_def)
  have ne: "ustr ''hi'' \<noteq> []" "\<not> startswith (ustr ''ok'') [cross_mark]"
    by (simp_all add: ustr_def startswith_def cross_mark_def)
  have sl: "str_lower (log_env h rr) = ascii_lower" for h rr
    by (simp add: log_env_def)
  show ?thesis
    by (simp add: interactive_step_def Let_def sl l st ne chat_def send_log_env p payload_messages
        init_def)
qed

section \<open>The configuration file\<close>

lemma config_file_path:
  "path_join (expanduser fs (ustr ''~/.config/claude-proxmox'')) (ustr ''config.json'')
     = expanduser fs (ustr ''~/.config/claude-proxmox/config.json'')"
  by (simp add: path_join_def expanduser_def startswith_def ustr_def)

lemma create_config_written:
  "create_config cd (Inr line) None Written fs =
     (Inr (JObj [(ustr ''api_key'', JStr (py_strip line))]),
      fs\<lparr>files := (files fs)
            (expanduser fs (ustr ''~/.config/claude-proxmox/config.json'') \<mapsto>
               json_dump cd (JObj [(ustr ''api_key'', JStr (py_strip line))]) 2)\<rparr>)"
  by (simp add: create_config_def Let_def config_file_path)

lemma expanduser_files_update [simp]: "expanduser (fs\<lparr>files := f\<rparr>) path = expanduser fs path"
  by (simp add: expanduser_def)

lemma load_config_reads_file:
  "files fs (expanduser fs (ustr ''~/.config/claude-proxmox/config.json'')) = Some text \<Longrightarrow>
   json_load cd text = Inr config \<Longrightarrow> load_config cd None fs = Inr config"
  by (simp add: load_config_def Let_def)

text \<open>
  Claim C8, amended. When the write succeeds and \<open>json.load\<close> reads back what
  \<open>json.dump\<close> wrote, \<open>load_config\<close> after \<open>create_config\<close> returns the configuration
  that \<open>create_config\<close> returned, whatever the file system held before and whether or not
  the environment variable is set; its API key is the line entered at the prompt with
  surrounding whitespace stripped.
\<close>

theorem config_round_trip:
  assumes "json_load cd (json_dump cd (JObj [(ustr ''api_key'', JStr (py_strip line))]) 2)
             = Inr (JObj [(ustr ''api_key'', JStr (py_strip line))])"
  shows "fst (create_config cd (Inr line) None Written fs)
           = Inr (JObj [(ustr ''api_key'', JStr (py_strip line))]) \<and>
         load_config cd None (snd (create_config cd (Inr line) None Written fs))
           = Inr (JObj [(ustr ''api_key'', JStr (py_strip line))]) \<and>
         subscript (JObj [(ustr ''api_key'', JStr (py_strip line))]) (ustr ''api_key'')
           = Inr (JStr (py_strip line))"
  using assms by (simp add: create_config_written load_config_reads_file)

lemma table_codec_round_trip:
  "json_load (table_codec [key_config k]) (json_dump (table_codec [key_config k]) (key_config k) 2)
     = Inr (key_config k)"
  by (simp add: table_codec_def)

theorem config_round_trip_witness:
  "load_config (table_codec [key_config (ustr ''sk-ant-1'')]) None
     (snd (create_config (table_codec [key_config (ustr ''sk-ant-1'')])
             (Inr (ustr ''sk-ant-1'')) None Written empty_fs))
   = Inr (JObj [(ustr ''api_key'', JStr (ustr ''sk-ant-1''))])"
proof -
  have st: "py_strip (ustr ''sk-ant-1'') = ustr ''sk-ant-1''"
    by (simp add: py_strip_def py_lstrip_def py_rstrip_def is_space_def ustr_def)
  have rt: "json_load (table_codec [key_config (ustr ''sk-ant-1'')])
              (json_dump (table_codec [key_config (ustr ''sk-ant-1'')])
                 (JObj [(ustr ''api_key'', JStr (py_strip (ustr ''sk-ant-1'')))]) 2)
            = Inr (JObj [(ustr ''api_key'', JStr (py_strip (ustr ''sk-ant-1'')))])"
    using table_codec_round_trip [of "ustr ''sk-ant-1''"] by (simp add: st key_config_def)
  from config_round_trip [OF rt, of empty_fs] show ?thesis
    by (simp add: st)
qed

text \<open>
  The claim as stated fails for a line with a leading space: the key that comes back is
  not the line that was entered.
\<close>

theorem padded_key_round_trip_counterexample:
  "load_config (table_codec [key_config (ustr ''sk-ant-1'')]) None
     (snd (create_config (table_codec [key_config (ustr ''sk-ant-1'')])
             (Inr (ustr '' sk-ant-1'')) None Written empty_fs))
   = Inr (JObj [(ustr ''api_key'', JStr (ustr ''sk-ant-1''))]) \<and>
   ustr ''sk-ant-1'' \<noteq> ustr '' sk-ant-1''"
proof -
  have st: "py_strip (ustr '' sk-ant-1'') = ustr ''sk-ant-1''"
    by (simp add: py_strip_def py_lstrip_def py_rstrip_def is_space_def ustr_def)
  have rt: "json_load (table_codec [key_config (ustr ''sk-ant-1'')])
              (json_dump (table_codec [key_config (ustr ''sk-ant-1'')])
                 (JObj [(ustr ''api_key'', JStr (ustr ''sk-ant-1''))]) 2)
            = Inr (JObj [(ustr ''api_key'', JStr (ustr ''sk-ant-1''))])"
    using table_codec_round_trip [of "ustr ''sk-ant-1''"] by (simp add: key_config_def)
  show ?thesis
    by (simp add: create_config_written st load_config_reads_file [OF _ rt])
qed

text \<open>
  Claim C9, amended. After two runs of \<open>create_config\<close> whose writes succeed,
  \<open>load_config\<close> returns the dictionary with the one key \<open>api_key\<close> and the second line,
  stripped; and the file system is the one that the second run alone would have left, so
  nothing of the first run is kept.
\<close>

theorem setup_twice_last_write_wins:
  assumes "json_load cd (json_dump cd (JObj [(ustr ''api_key'', JStr (py_strip line2))]) 2)
             = Inr (JObj [(ustr ''api_key'', JStr (py_strip line2))])"
  shows "load_config cd None
           (snd (create_config cd (Inr line2) None Written
              (snd (create_config cd (Inr line1) None Written fs))))
           = Inr (JObj [(ustr ''api_key'', JStr (py_strip line2))]) \<and>
         snd (create_config cd (Inr line2) None Written
              (snd (create_config cd (Inr line1) None Written fs)))
           = snd (create_config cd (Inr line2) None Written fs)"
  using assms by (simp add: create_config_written load_config_reads_file)

theorem setup_twice_last_write_wins_witness:
  "load_config (table_codec [key_config (ustr ''sk-ant-1''), key_config (ustr ''sk-ant-2'')]) None
     (snd (create_config (table_codec [key_config (ustr ''sk-ant-1''), key_config (ustr ''sk-ant-2'')])
             (Inr (ustr ''sk-ant-2'')) None Written
        (snd (create_config (table_codec [key_config (ustr ''sk-ant-1''), key_config (ustr ''sk-ant-2'')])
               (Inr (ustr ''sk-ant-1'')) None Written empty_fs))))
   = Inr (JObj [(ustr ''api_key'', JStr (ustr ''sk-ant-2''))])"
proof -
  let ?cd = "table_codec [key_config (ustr ''sk-ant-1''), key_config (ustr ''sk-ant-2'')]"
  have st: "py_strip (ustr ''sk-ant-2'') = ustr ''sk-ant-2''"
    by (simp add: py_strip_def py_lstrip_def py_rstrip_def is_space_def ustr_def)
  have rt: "json_load ?cd (json_dump ?cd (JObj [(ustr ''api_key'', JStr (py_strip (ustr ''sk-ant-2'')))]) 2)
            = Inr (JObj [(ustr ''api_key'', JStr (py_strip (ustr ''sk-ant-2'')))])"
    by (simp add: st table_codec_def key_config_def dump_flat_def)
  from setup_twice_last_write_wins [OF rt, of "ustr ''sk-ant-1''" empty_fs, THEN conjunct1]
  show ?thesis
    by (simp only: st)
qed

text \<open>
  The claim as stated fails when the second key is the first one with a leading space:
  the two lines differ, and the key that comes back is the first line, not the second.
\<close>

theorem setup_twice_padded_key_counterexample:
  "load_config (table_codec [key_config (ustr ''sk-ant-1'')]) None
     (snd (create_config (table_codec [key_config (ustr ''sk-ant-1'')])
             (Inr (ustr '' sk-ant-1'')) None Written
        (snd (create_config (table_codec [key_config (ustr ''sk-ant-1'')])
               (Inr (ustr ''sk-ant-1'')) None Written empty_fs))))
   = Inr (JObj [(ustr ''api_key'', JStr (ustr ''sk-ant-1''))]) \<and>
   ustr ''sk-ant-1'' \<noteq> ustr '' sk-ant-1''"
proof -
  let ?cd = "table_codec [key_config (ustr ''sk-ant-1'')]"
  have st: "py_strip (ustr '' sk-ant-1'') = ustr ''sk-ant-1''"
    by (simp add: py_strip_def py_lstrip_def py_rstrip_def is_space_def ustr_def)
  have rt: "json_load ?cd (json_dump ?cd (JObj [(ustr ''api_key'', JStr (ustr ''sk-ant-1''))]) 2)
            = Inr (JObj [(ustr ''api_key'', JStr (ustr ''sk-ant-1''))])"
    by (simp add: table_codec_def key_config_def dump_flat_def)
  show ?thesis
    by (simp add: create_config_written st load_config_reads_file [OF _ rt])
qed


end
